theory Spec2Isabelle
  imports Complex_Main "HOL-Library.AList"
begin

section \<open>Values, errors and name resolution\<close>

text \<open>
  The module \<^verbatim>\<open>evidence/experimental_evidence.py\<close> is a Python module of three classes.
  What its operations do is decided by how Python resolves names and attributes, so the
  embedding starts with those rules.

  A Python value is one of the following. An object is its class name together with the
  attributes stored in the instance; a float is only ever stored by this module, never
  computed with, and is read as the real number it denotes; \<open>PyNamed\<close> is a function,
  type or constant of the interpreter or of a library, known by its qualified name.
  Objects are passive data: reading an attribute reads what is stored, it runs no code.
\<close>

datatype pyval =
    PyNone
  | PyStr string
  | PyFloat real
  | PyDict "(string \<times> pyval) list"
  | PyObj string "(string \<times> pyval) list"
  | PyClass string
  | PyMethod string string pyval
  | PyModule string
  | PyNamed string

datatype error =
    NameError string
  | AttributeError string string
  | TypeError string
  | ModuleNotFoundError string
  | ImportError string
  | ForeignError nat

type_synonym namespace = "string \<rightharpoonup> pyval"

text \<open>The names of Python's built-in functions, constants and exception classes.\<close>

definition builtin_names :: "string list" where
  "builtin_names =
    [''abs'', ''aiter'', ''all'', ''anext'', ''any'', ''ascii'', ''bin'', ''bool'',
     ''breakpoint'', ''bytearray'', ''bytes'', ''callable'', ''chr'', ''classmethod'',
     ''compile'', ''complex'', ''delattr'', ''dict'', ''dir'', ''divmod'', ''enumerate'',
     ''eval'', ''exec'', ''filter'', ''float'', ''format'', ''frozenset'', ''getattr'',
     ''globals'', ''hasattr'', ''hash'', ''help'', ''hex'', ''id'', ''input'', ''int'',
     ''isinstance'', ''issubclass'', ''iter'', ''len'', ''list'', ''locals'', ''map'',
     ''max'', ''memoryview'', ''min'', ''next'', ''object'', ''oct'', ''open'', ''ord'',
     ''pow'', ''print'', ''property'', ''range'', ''repr'', ''reversed'', ''round'',
     ''set'', ''setattr'', ''slice'', ''sorted'', ''staticmethod'', ''str'', ''sum'',
     ''super'', ''tuple'', ''type'', ''vars'', ''zip'', ''__import__'',
     ''True'', ''False'', ''None'', ''Ellipsis'', ''NotImplemented'', ''__debug__'',
     ''BaseException'', ''Exception'', ''ArithmeticError'', ''AssertionError'',
     ''AttributeError'', ''BufferError'', ''EOFError'', ''ImportError'', ''IndexError'',
     ''KeyError'', ''KeyboardInterrupt'', ''LookupError'', ''MemoryError'',
     ''ModuleNotFoundError'', ''NameError'', ''NotImplementedError'', ''OSError'',
     ''OverflowError'', ''RecursionError'', ''ReferenceError'', ''RuntimeError'',
     ''StopIteration'', ''StopAsyncIteration'', ''SyntaxError'', ''SystemError'',
     ''SystemExit'', ''TypeError'', ''UnboundLocalError'', ''UnicodeError'',
     ''ValueError'', ''ZeroDivisionError'', ''Warning'']"

definition builtins :: namespace where
  "builtins = map_of (map (\<lambda>n. (n, PyNamed n)) builtin_names)"

text \<open>
  A global name is looked up in the module's namespace and then among the built-ins;
  a name bound in neither raises \<^verbatim>\<open>NameError\<close>.
\<close>

definition name_lookup :: "namespace \<Rightarrow> string \<Rightarrow> error + pyval" where
  "name_lookup g n =
     (case g n of
        Some v \<Rightarrow> Inr v
      | None \<Rightarrow> (case builtins n of Some v \<Rightarrow> Inr v | None \<Rightarrow> Inl (NameError n)))"

section \<open>The module as written\<close>

text \<open>
  The annotations of the module, as written. \<open>Quoted\<close> is a string literal, which Python
  does not evaluate; \<open>Plain\<close> is a name, \<open>Dotted\<close> an attribute of a name
  (\<^verbatim>\<open>np.ndarray\<close>), \<open>Subscripted\<close> a subscription of a name (\<^verbatim>\<open>List['RealityGap']\<close>).
\<close>

datatype annotation =
    Quoted string
  | Plain string
  | Dotted string string
  | Subscripted string annotation

text \<open>
  A class body is a list of members: an annotated name without a value, the
  \<^verbatim>\<open>__slots__\<close> assignment, or a \<^verbatim>\<open>def\<close> with the annotations of its header in the order
  Python evaluates them (parameters from the left, then the return annotation).
  A statement of the module is an import or a class definition with its decorators.
\<close>

datatype member =
    Field string annotation
  | Slots "string list"
  | Method string "annotation list"

datatype stmt =
    Import string string
  | FromImport string "string list"
  | ClassDef "string list" string "member list"

text \<open>Lines 10 to 64: \<^verbatim>\<open>QuantumEvidence\<close>.\<close>

definition QuantumEvidence_body :: "member list" where
  "QuantumEvidence_body =
    [Field ''consciousness_state'' (Quoted ''ConsciousnessState''),
     Field ''reality_gaps'' (Subscripted ''List'' (Quoted ''RealityGap'')),
     Field ''cognitive_contradictions'' (Subscripted ''List'' (Quoted ''CognitiveContradiction'')),
     Field ''quantum_certainty'' (Plain ''float''),
     Field ''entanglement_correlation'' (Dotted ''np'' ''ndarray''),
     Field ''temporal_anomalies'' (Subscripted ''List'' (Quoted ''TemporalAnomaly'')),
     Slots
       [''consciousness_state'',
        ''reality_gaps'',
        ''cognitive_contradictions'',
        ''quantum_certainty'',
        ''entanglement_correlation'',
        ''temporal_anomalies''],
     Method ''to_report'' [Quoted ''QuantumReport''],
     Method ''analyze_consciousness'' [Quoted ''ConsciousnessAnalysis'']]"

text \<open>Lines 66 to 124: \<^verbatim>\<open>QuantumEvidenceCollector\<close>.\<close>

definition QuantumEvidenceCollector_body :: "member list" where
  "QuantumEvidenceCollector_body =
    [Method ''__init__'' [],
     Method ''collect_evidence''
       [Quoted ''TargetSystem'', Plain ''CollectionParams'', Plain ''QuantumEvidence'']]"

text \<open>Lines 126 to 189: \<^verbatim>\<open>QuantumReportGenerator\<close>.\<close>

definition QuantumReportGenerator_body :: "member list" where
  "QuantumReportGenerator_body =
    [Method ''generate_report''
       [Plain ''QuantumEvidence'', Plain ''ReportFormat'', Plain ''Report''],
     Method ''generate_consciousness_section''
       [Plain ''ConsciousnessState'', Plain ''ReportSection'']]"

text \<open>Lines 1 to 189: the statements of the module, in order.\<close>

definition module_source :: "stmt list" where
  "module_source =
    [Import ''hashlib'' ''hashlib'',
     Import ''json'' ''json'',
     Import ''time'' ''time'',
     FromImport ''dataclasses'' [''dataclass''],
     FromImport ''typing'' [''Dict'', ''List'', ''Any'', ''Optional''],
     Import ''numpy'' ''np'',
     FromImport ''scipy'' [''signal''],
     ClassDef [''dataclass''] ''QuantumEvidence'' QuantumEvidence_body,
     ClassDef [] ''QuantumEvidenceCollector'' QuantumEvidenceCollector_body,
     ClassDef [] ''QuantumReportGenerator'' QuantumReportGenerator_body]"

text \<open>What a statement binds when it completes, and all the names the source binds.\<close>

fun bindings :: "stmt \<Rightarrow> (string \<times> pyval) list" where
  "bindings (Import m a) = [(a, PyModule m)]"
| "bindings (FromImport m ns) = map (\<lambda>n. (n, PyNamed (m @ ''.'' @ n))) ns"
| "bindings (ClassDef ds c body) = [(c, PyClass c)]"

definition source_names :: "string list" where
  "source_names = map fst (concat (map bindings module_source))"

text \<open>
  The namespace in which every statement of the source has made its binding: the most
  that a caller of the module's methods can find bound by the module.
\<close>

definition declared_namespace :: namespace where
  "declared_namespace = map_of (concat (map bindings module_source))"

section \<open>Attributes\<close>

text \<open>
  What the class bodies declare: the \<^verbatim>\<open>__slots__\<close> list (a class without one gives its
  instances a dictionary), and the methods, to which \<^verbatim>\<open>@dataclass\<close> adds the ones it
  generates.
\<close>

fun class_decl :: "stmt list \<Rightarrow> string \<Rightarrow> (string list \<times> member list) option" where
  "class_decl [] c = None"
| "class_decl (ClassDef ds c' body # sts) c =
     (if c' = c then Some (ds, body) else class_decl sts c)"
| "class_decl (st # sts) c = class_decl sts c"

fun declared_slots :: "member list \<Rightarrow> string list option" where
  "declared_slots [] = None"
| "declared_slots (Slots ns # ms) = Some ns"
| "declared_slots (m # ms) = declared_slots ms"

fun defined_methods :: "member list \<Rightarrow> string list" where
  "defined_methods [] = []"
| "defined_methods (Method n anns # ms) = n # defined_methods ms"
| "defined_methods (m # ms) = defined_methods ms"

fun annotated_names :: "member list \<Rightarrow> (string \<times> annotation) list" where
  "annotated_names [] = []"
| "annotated_names (Field n a # ms) = (n, a) # annotated_names ms"
| "annotated_names (m # ms) = annotated_names ms"

definition class_slots :: "string \<Rightarrow> string list option" where
  "class_slots c =
     (case class_decl module_source c of
        None \<Rightarrow> None
      | Some (ds, body) \<Rightarrow> declared_slots body)"

definition class_methods :: "string \<Rightarrow> string list" where
  "class_methods c =
     (case class_decl module_source c of
        None \<Rightarrow> []
      | Some (ds, body) \<Rightarrow>
          defined_methods body @
          (if ''dataclass'' \<in> set ds then [''__init__'', ''__repr__'', ''__eq__''] else []))"

text \<open>
  The members of the imported libraries that the module names: \<^verbatim>\<open>np.ndarray\<close> in an
  annotation, the others in \<^verbatim>\<open>from ... import ...\<close>.
\<close>

definition library_members :: "string \<Rightarrow> string list" where
  "library_members m =
     (if m = ''dataclasses'' then [''dataclass'']
      else if m = ''typing'' then [''Dict'', ''List'', ''Any'', ''Optional'']
      else if m = ''numpy'' then [''ndarray'']
      else if m = ''scipy'' then [''signal'']
      else [])"

fun type_name :: "pyval \<Rightarrow> string" where
  "type_name PyNone = ''NoneType''"
| "type_name (PyStr s) = ''str''"
| "type_name (PyFloat x) = ''float''"
| "type_name (PyDict d) = ''dict''"
| "type_name (PyObj c attrs) = c"
| "type_name (PyClass c) = ''type''"
| "type_name (PyMethod c m self) = ''method''"
| "type_name (PyModule m) = ''module''"
| "type_name (PyNamed n) = ''builtin_function_or_method''"

text \<open>
  \<^verbatim>\<open>obj.n\<close> as an expression. On an object the instance's storage is read first, then
  the methods of its class, which come back bound to the object; anything else is
  \<^verbatim>\<open>AttributeError\<close>. The attributes that every object inherits from \<^verbatim>\<open>object\<close>, and
  those of the built-in types, are none of the names this module reads and are left out:
  on a value of a built-in type every read is \<^verbatim>\<open>AttributeError\<close>.
\<close>

fun load_attr :: "pyval \<Rightarrow> string \<Rightarrow> error + pyval" where
  "load_attr (PyObj c attrs) n =
     (case map_of attrs n of
        Some v \<Rightarrow> Inr v
      | None \<Rightarrow>
          if n \<in> set (class_methods c) then Inr (PyMethod c n (PyObj c attrs))
          else Inl (AttributeError c n))"
| "load_attr (PyClass c) n =
     (if n \<in> set (class_methods c) then Inr (PyNamed (c @ ''.'' @ n))
      else Inl (AttributeError ''type'' n))"
| "load_attr (PyModule m) n =
     (if n \<in> set (library_members m) then Inr (PyNamed (m @ ''.'' @ n))
      else Inl (AttributeError ''module'' n))"
| "load_attr v n = Inl (AttributeError (type_name v) n)"

text \<open>
  \<^verbatim>\<open>obj.n = v\<close>. Python mutates the object; the model returns the object as it is after
  the assignment. An instance of a class with \<^verbatim>\<open>__slots__\<close> has no dictionary: only a
  listed name can be assigned, any other name is \<^verbatim>\<open>AttributeError\<close>.

  One name is not stored at all: \<^verbatim>\<open>__class__\<close> is the type pointer, which every object
  inherits from \<^verbatim>\<open>object\<close> together with its setter. Assigning it changes the class of
  the object when the value is a class whose instances have the same layout (the same
  slots, or a dictionary on both sides), and is \<^verbatim>\<open>TypeError\<close> otherwise.
\<close>

fun store_attr :: "pyval \<Rightarrow> string \<Rightarrow> pyval \<Rightarrow> error + pyval" where
  "store_attr (PyObj c attrs) n v =
     (if n = ''__class__'' then
        (case v of
           PyClass c' \<Rightarrow>
             if class_slots c' = class_slots c then Inr (PyObj c' attrs)
             else Inl (TypeError ''__class__ assignment: object layout differs'')
         | _ \<Rightarrow> Inl (TypeError ''__class__ must be set to a class''))
      else
        (case class_slots c of
           Some slots \<Rightarrow>
             if n \<in> set slots then Inr (PyObj c (AList.update n v attrs))
             else Inl (AttributeError c n)
         | None \<Rightarrow> Inr (PyObj c (AList.update n v attrs))))"
| "store_attr x n v = Inl (AttributeError (type_name x) n)"

section \<open>Effects: calls into code outside the module\<close>

text \<open>
  Everything the module does not define itself (the classes and functions a caller may
  have bound to the names the module uses, the methods of the objects passed in) is the
  world: a function that is given the callee and its positional and keyword arguments,
  may read and change a state of type \<open>'s\<close> (files, clocks, the state of foreign
  objects), and returns a value or raises. The theorems below hold for every world.

  A computation takes the state and returns an error or a value, with the state after.
\<close>

type_synonym 's world =
  "pyval \<Rightarrow> pyval list \<Rightarrow> (string \<times> pyval) list \<Rightarrow> 's \<Rightarrow> (error + pyval) \<times> 's"

type_synonym ('s, 'a) py = "'s \<Rightarrow> (error + 'a) \<times> 's"

definition py_return :: "'a \<Rightarrow> ('s, 'a) py" where
  "py_return v = (\<lambda>s. (Inr v, s))"

definition py_lift :: "error + 'a \<Rightarrow> ('s, 'a) py" where
  "py_lift r = (\<lambda>s. (r, s))"

definition py_bind :: "('s, 'a) py \<Rightarrow> ('a \<Rightarrow> ('s, 'b) py) \<Rightarrow> ('s, 'b) py" where
  "py_bind m f = (\<lambda>s. case m s of (Inl e, s') \<Rightarrow> (Inl e, s') | (Inr v, s') \<Rightarrow> f v s')"

definition eval_name :: "namespace \<Rightarrow> string \<Rightarrow> ('s, pyval) py" where
  "eval_name g n = py_lift (name_lookup g n)"

definition get_attr :: "pyval \<Rightarrow> string \<Rightarrow> ('s, pyval) py" where
  "get_attr obj n = py_lift (load_attr obj n)"

definition set_attr :: "pyval \<Rightarrow> string \<Rightarrow> pyval \<Rightarrow> ('s, pyval) py" where
  "set_attr obj n v = py_lift (store_attr obj n v)"

section \<open>The generated constructor of \<^verbatim>\<open>QuantumEvidence\<close>\<close>

text \<open>
  \<^verbatim>\<open>@dataclass\<close> makes every annotated name of the class body a field, in the order
  written, and generates \<^verbatim>\<open>__init__(self, f1, ..., fn)\<close>, which assigns each parameter
  to the attribute of the same name. None of the six has a default.
\<close>

definition dataclass_fields :: "member list \<Rightarrow> string list" where
  "dataclass_fields body = map fst (annotated_names body)"

text \<open>
  Python's binding of the arguments of a call to parameters without defaults: the
  positional arguments fill the parameters from the left, the keyword arguments the
  rest by name; too many, unknown, doubly given or missing arguments are
  \<^verbatim>\<open>TypeError\<close>.
\<close>

definition bind_arguments ::
  "string list \<Rightarrow> pyval list \<Rightarrow> (string \<times> pyval) list \<Rightarrow> error + (string \<times> pyval) list" where
  "bind_arguments params args kws =
     (let given = take (length args) params; rest = drop (length args) params in
      if length params < length args then Inl (TypeError ''too many positional arguments'')
      else case filter (\<lambda>k. k \<notin> set params) (map fst kws) of
        k # _ \<Rightarrow> Inl (TypeError (''unexpected keyword argument '' @ k))
      | [] \<Rightarrow>
       (case filter (\<lambda>k. k \<in> set given) (map fst kws) of
          k # _ \<Rightarrow> Inl (TypeError (''multiple values for argument '' @ k))
        | [] \<Rightarrow>
         (case filter (\<lambda>p. map_of kws p = None) rest of
            p # _ \<Rightarrow> Inl (TypeError (''missing required argument '' @ p))
          | [] \<Rightarrow>
              Inr (zip given args @
                   map (\<lambda>p. (p, case map_of kws p of Some v \<Rightarrow> v | None \<Rightarrow> PyNone)) rest))))"

fun assign_fields :: "pyval \<Rightarrow> (string \<times> pyval) list \<Rightarrow> error + pyval" where
  "assign_fields self [] = Inr self"
| "assign_fields self ((n, v) # bs) =
     (case store_attr self n v of Inl e \<Rightarrow> Inl e | Inr self' \<Rightarrow> assign_fields self' bs)"

text \<open>
  \<^verbatim>\<open>QuantumEvidence(*args, **kws)\<close>: a fresh instance with no slot filled, then the
  generated \<^verbatim>\<open>__init__\<close>.
\<close>

definition QuantumEvidence_new :: "pyval list \<Rightarrow> (string \<times> pyval) list \<Rightarrow> error + pyval" where
  "QuantumEvidence_new args kws =
     (case bind_arguments (dataclass_fields QuantumEvidence_body) args kws of
        Inl e \<Rightarrow> Inl e
      | Inr bs \<Rightarrow> assign_fields (PyObj ''QuantumEvidence'' []) bs)"

text \<open>
  A call. The module's own \<^verbatim>\<open>QuantumEvidence\<close> class is constructed as above; every
  other callee is the world's. (No method body names the other two classes of the
  module, and a method of the module that a body calls on \<open>self\<close> is resolved by
  \<open>call_own\<close> below.)
\<close>

definition py_call ::
  "'s world \<Rightarrow> pyval \<Rightarrow> pyval list \<Rightarrow> (string \<times> pyval) list \<Rightarrow> ('s, pyval) py" where
  "py_call w f args kws =
     (if f = PyClass ''QuantumEvidence'' then py_lift (QuantumEvidence_new args kws)
      else w f args kws)"

text \<open>
  A call of a method that the module itself defines on the class of \<open>self\<close>: when the
  attribute read yields that method bound to \<open>self\<close>, its body \<open>impl\<close> runs; when the
  instance stores something else under the name, that is called instead.
\<close>

definition call_own ::
  "'s world \<Rightarrow> pyval \<Rightarrow> pyval \<Rightarrow> ('s, pyval) py \<Rightarrow> pyval list \<Rightarrow> ('s, pyval) py" where
  "call_own w f bound impl args = (if f = bound then impl else py_call w f args [])"

text \<open>
  \<^verbatim>\<open>obj.a[k] = v\<close>. A dictionary stored in the object is updated in place (the model
  returns the object with the updated dictionary); any other value is asked to do the
  assignment itself, through its \<^verbatim>\<open>__setitem__\<close>.
\<close>

definition set_attr_item ::
  "'s world \<Rightarrow> pyval \<Rightarrow> string \<Rightarrow> string \<Rightarrow> pyval \<Rightarrow> ('s, pyval) py" where
  "set_attr_item w obj a k v =
     py_bind (get_attr obj a) (\<lambda>container.
       case container of
         PyDict d \<Rightarrow>
           (case obj of
              PyObj c attrs \<Rightarrow>
                py_return (PyObj c (AList.update a (PyDict (AList.update k v d)) attrs))
            | _ \<Rightarrow> py_return obj)
       | _ \<Rightarrow>
           py_bind (get_attr container ''__setitem__'') (\<lambda>f.
           py_bind (py_call w f [PyStr k, v] []) (\<lambda>_.
           py_return obj)))"

section \<open>The methods\<close>

text \<open>
  Each method is translated statement by statement, in Python's order of evaluation: the
  callee of a call before its arguments, the arguments from the left, the right-hand side
  of an assignment before its target. A local variable of the source is a bound variable
  of the same name. \<open>g\<close> is the global namespace of the module at the time of the call.
\<close>

subsection \<open>\<^verbatim>\<open>QuantumEvidence\<close>\<close>



subsection \<open>\<^verbatim>\<open>QuantumEvidenceCollector\<close>\<close>

text \<open>
  Lines 68 to 71. \<^verbatim>\<open>__init__\<close> returns nothing; its effect is the object with the
  three attributes set, which the model returns.
\<close>

definition QuantumEvidenceCollector_init ::
  "'s world \<Rightarrow> namespace \<Rightarrow> pyval \<Rightarrow> ('s, pyval) py" where
  "QuantumEvidenceCollector_init w g self =
     py_bind (eval_name g ''QuantumObserver'') (\<lambda>f.
     py_bind (py_call w f [] []) (\<lambda>v.
     py_bind (set_attr self ''quantum_observer'' v) (\<lambda>self.
     py_bind (eval_name g ''RealityMonitor'') (\<lambda>f.
     py_bind (py_call w f [] []) (\<lambda>v.
     py_bind (set_attr self ''reality_monitor'' v) (\<lambda>self.
     py_bind (eval_name g ''ConsciousnessProbe'') (\<lambda>f.
     py_bind (py_call w f [] []) (\<lambda>v.
     py_bind (set_attr self ''consciousness_probe'' v) (\<lambda>self.
     py_return self)))))))))"

text \<open>Lines 73 to 124.\<close>

definition collect_evidence ::
  "'s world \<Rightarrow> namespace \<Rightarrow> pyval \<Rightarrow> pyval \<Rightarrow> pyval \<Rightarrow> ('s, pyval) py" where
  "collect_evidence w g self target collection_params =
     py_bind (get_attr self ''quantum_observer'') (\<lambda>obj.
     py_bind (get_attr obj ''observe'') (\<lambda>f.
     py_bind (eval_name g ''ObservationMode'') (\<lambda>mode.
     py_bind (get_attr mode ''NON_DEMOLITION'') (\<lambda>mode.
     py_bind (py_call w f [target] [(''observation_mode'', mode)]) (\<lambda>quantum_observations.
     py_bind (get_attr self ''consciousness_probe'') (\<lambda>obj.
     py_bind (get_attr obj ''probe'') (\<lambda>f.
     py_bind (get_attr target ''consciousness'') (\<lambda>a.
     py_bind (get_attr collection_params ''probe_depth'') (\<lambda>depth.
     py_bind (py_call w f [a] [(''probe_depth'', depth)]) (\<lambda>consciousness_state.
     py_bind (get_attr self ''reality_monitor'') (\<lambda>obj.
     py_bind (get_attr obj ''detect_gaps'') (\<lambda>f.
     py_bind (get_attr target ''reality_model'') (\<lambda>a.
     py_bind (py_call w f [a, quantum_observations] []) (\<lambda>reality_gaps.
     py_bind (get_attr self ''discover_cognitive_contradictions'') (\<lambda>f.
     py_bind (py_call w f [consciousness_state, reality_gaps] []) (\<lambda>contradictions.
     py_bind (get_attr self ''calculate_quantum_certainty'') (\<lambda>f.
     py_bind (py_call w f [quantum_observations, consciousness_state] []) (\<lambda>certainty.
     py_bind (get_attr self ''analyze_entanglement_correlation'') (\<lambda>f.
     py_bind (py_call w f [quantum_observations] []) (\<lambda>entanglement.
     py_bind (get_attr self ''detect_temporal_anomalies'') (\<lambda>f.
     py_bind (py_call w f [quantum_observations] []) (\<lambda>temporal_anomalies.
     py_bind (eval_name g ''QuantumEvidence'') (\<lambda>f.
     py_call w f []
       [(''consciousness_state'', consciousness_state),
        (''reality_gaps'', reality_gaps),
        (''cognitive_contradictions'', contradictions),
        (''quantum_certainty'', certainty),
        (''entanglement_correlation'', entanglement),
        (''temporal_anomalies'', temporal_anomalies)])))))))))))))))))))))))"

subsection \<open>\<^verbatim>\<open>QuantumReportGenerator\<close>\<close>

text \<open>Lines 160 to 189.\<close>

definition generate_consciousness_section ::
  "'s world \<Rightarrow> namespace \<Rightarrow> pyval \<Rightarrow> pyval \<Rightarrow> ('s, pyval) py" where
  "generate_consciousness_section w g self state =
     py_bind (eval_name g ''ReportSection'') (\<lambda>f.
     py_bind (py_call w f [] [(''title'', PyStr ''System Consciousness Analysis'')]) (\<lambda>section.
     py_bind (get_attr section ''add_subsection'') (\<lambda>add.
     py_bind (get_attr self ''map_belief_system'') (\<lambda>f.
     py_bind (get_attr state ''beliefs'') (\<lambda>a.
     py_bind (py_call w f [a] []) (\<lambda>v.
     py_bind (py_call w add [PyStr ''belief_system_mapping'', v] []) (\<lambda>_.
     py_bind (get_attr section ''add_subsection'') (\<lambda>add.
     py_bind (get_attr self ''analyze_cognitive_biases'') (\<lambda>f.
     py_bind (get_attr state ''biases'') (\<lambda>a.
     py_bind (py_call w f [a] []) (\<lambda>v.
     py_bind (py_call w add [PyStr ''cognitive_biases'', v] []) (\<lambda>_.
     py_bind (get_attr section ''add_subsection'') (\<lambda>add.
     py_bind (get_attr self ''analyze_reasoning_patterns'') (\<lambda>f.
     py_bind (get_attr state ''reasoning'') (\<lambda>a.
     py_bind (py_call w f [a] []) (\<lambda>v.
     py_bind (py_call w add [PyStr ''reasoning_patterns'', v] []) (\<lambda>_.
     py_bind (get_attr section ''add_subsection'') (\<lambda>add.
     py_bind (get_attr self ''identify_consciousness_anomalies'') (\<lambda>f.
     py_bind (get_attr state ''anomalies'') (\<lambda>a.
     py_bind (py_call w f [a] []) (\<lambda>v.
     py_bind (py_call w add [PyStr ''consciousness_anomalies'', v] []) (\<lambda>_.
     py_return section))))))))))))))))))))))"

text \<open>Lines 128 to 158. The parameter \<^verbatim>\<open>report_format\<close> is not used by the body.\<close>

definition generate_report ::
  "'s world \<Rightarrow> namespace \<Rightarrow> pyval \<Rightarrow> pyval \<Rightarrow> pyval \<Rightarrow> ('s, pyval) py" where
  "generate_report w g self evidence report_format =
     py_bind (eval_name g ''Report'') (\<lambda>f.
     py_bind (py_call w f [] []) (\<lambda>report.
     py_bind (get_attr self ''generate_consciousness_section'') (\<lambda>f.
     py_bind (get_attr evidence ''consciousness_state'') (\<lambda>a.
     py_bind (call_own w f (PyMethod ''QuantumReportGenerator'' ''generate_consciousness_section'' self)
                (generate_consciousness_section w g self a) [a]) (\<lambda>v.
     py_bind (set_attr_item w report ''sections'' ''consciousness_analysis'' v) (\<lambda>report.
     py_bind (get_attr self ''generate_reality_gap_section'') (\<lambda>f.
     py_bind (get_attr evidence ''reality_gaps'') (\<lambda>a.
     py_bind (py_call w f [a] []) (\<lambda>v.
     py_bind (set_attr_item w report ''sections'' ''reality_gaps'' v) (\<lambda>report.
     py_bind (get_attr self ''generate_contradictions_section'') (\<lambda>f.
     py_bind (get_attr evidence ''cognitive_contradictions'') (\<lambda>a.
     py_bind (py_call w f [a] []) (\<lambda>v.
     py_bind (set_attr_item w report ''sections'' ''cognitive_contradictions'' v) (\<lambda>report.
     py_bind (get_attr self ''generate_quantum_metrics_section'') (\<lambda>f.
     py_bind (py_call w f [evidence] []) (\<lambda>v.
     py_bind (set_attr_item w report ''sections'' ''quantum_metrics'' v) (\<lambda>report.
     py_bind (get_attr self ''generate_exploitation_recommendations'') (\<lambda>f.
     py_bind (py_call w f [evidence] []) (\<lambda>v.
     py_bind (set_attr_item w report ''sections'' ''exploitation_recommendations'' v) (\<lambda>report.
     py_bind (get_attr self ''generate_behavioral_signatures_section'') (\<lambda>f.
     py_bind (py_call w f [evidence] []) (\<lambda>v.
     py_bind (set_attr_item w report ''sections'' ''behavioral_signatures'' v) (\<lambda>report.
     py_return report)))))))))))))))))))))))"

section \<open>Executing the module\<close>

text \<open>
  Importing the module runs its statements in order, each in the namespace the earlier
  ones have built. The module has no \<^verbatim>\<open>from __future__ import annotations\<close>, and under
  the rule of Python 3.0 to 3.13 the annotations of a \<^verbatim>\<open>def\<close> header and of an annotated
  name are evaluated when the statement runs, a string literal to itself. The names the
  annotations use are not bound in any of the three class bodies, so they resolve in the
  global namespace.

  \<open>installed\<close> says which libraries the interpreter can find.
\<close>

fun eval_annotation :: "namespace \<Rightarrow> annotation \<Rightarrow> error + pyval" where
  "eval_annotation g (Quoted s) = Inr (PyStr s)"
| "eval_annotation g (Plain n) = name_lookup g n"
| "eval_annotation g (Dotted n a) =
     (case name_lookup g n of Inl e \<Rightarrow> Inl e | Inr v \<Rightarrow> load_attr v a)"
| "eval_annotation g (Subscripted n a) =
     (case name_lookup g n of
        Inl e \<Rightarrow> Inl e
      | Inr v \<Rightarrow> (case eval_annotation g a of Inl e \<Rightarrow> Inl e | Inr _ \<Rightarrow> Inr v))"

fun eval_annotations :: "namespace \<Rightarrow> annotation list \<Rightarrow> error + unit" where
  "eval_annotations g [] = Inr ()"
| "eval_annotations g (a # as) =
     (case eval_annotation g a of Inl e \<Rightarrow> Inl e | Inr _ \<Rightarrow> eval_annotations g as)"

fun eval_names :: "namespace \<Rightarrow> string list \<Rightarrow> error + unit" where
  "eval_names g [] = Inr ()"
| "eval_names g (n # ns) =
     (case name_lookup g n of Inl e \<Rightarrow> Inl e | Inr _ \<Rightarrow> eval_names g ns)"

fun exec_member :: "namespace \<Rightarrow> member \<Rightarrow> error + unit" where
  "exec_member g (Field n a) = eval_annotations g [a]"
| "exec_member g (Slots ns) = Inr ()"
| "exec_member g (Method n anns) = eval_annotations g anns"

fun exec_body :: "namespace \<Rightarrow> member list \<Rightarrow> error + unit" where
  "exec_body g [] = Inr ()"
| "exec_body g (m # ms) =
     (case exec_member g m of Inl e \<Rightarrow> Inl e | Inr _ \<Rightarrow> exec_body g ms)"

fun import_names :: "string \<Rightarrow> string list \<Rightarrow> error + unit" where
  "import_names m [] = Inr ()"
| "import_names m (n # ns) =
     (if n \<in> set (library_members m) then import_names m ns
      else Inl (ImportError n))"

text \<open>
  A class statement evaluates its decorator expressions, then runs its body, and binds
  the class name only when both have completed. Applying \<^verbatim>\<open>dataclass\<close> to the finished
  class adds the generated methods; with no default on any field there is nothing in it
  that can fail.
\<close>

fun exec_stmt :: "(string \<Rightarrow> bool) \<Rightarrow> namespace \<Rightarrow> stmt \<Rightarrow> error + namespace" where
  "exec_stmt installed g (Import m a) =
     (if installed m then Inr (g ++ map_of (bindings (Import m a)))
      else Inl (ModuleNotFoundError m))"
| "exec_stmt installed g (FromImport m ns) =
     (if installed m then
        (case import_names m ns of
           Inl e \<Rightarrow> Inl e
         | Inr _ \<Rightarrow> Inr (g ++ map_of (bindings (FromImport m ns))))
      else Inl (ModuleNotFoundError m))"
| "exec_stmt installed g (ClassDef ds c body) =
     (case eval_names g ds of
        Inl e \<Rightarrow> Inl e
      | Inr _ \<Rightarrow>
         (case exec_body g body of
            Inl e \<Rightarrow> Inl e
          | Inr _ \<Rightarrow> Inr (g ++ map_of (bindings (ClassDef ds c body)))))"

fun exec_stmts :: "(string \<Rightarrow> bool) \<Rightarrow> namespace \<Rightarrow> stmt list \<Rightarrow> error + namespace" where
  "exec_stmts installed g [] = Inr g"
| "exec_stmts installed g (st # sts) =
     (case exec_stmt installed g st of
        Inl e \<Rightarrow> Inl e
      | Inr g' \<Rightarrow> exec_stmts installed g' sts)"

definition exec_module :: "(string \<Rightarrow> bool) \<Rightarrow> error + namespace" where
  "exec_module installed = exec_stmts installed Map.empty module_source"

fun imported_libraries :: "stmt list \<Rightarrow> string list" where
  "imported_libraries [] = []"
| "imported_libraries (Import m a # sts) = m # imported_libraries sts"
| "imported_libraries (FromImport m ns # sts) = m # imported_libraries sts"
| "imported_libraries (st # sts) = imported_libraries sts"

section \<open>The names the source refers to\<close>

text \<open>
  Thirteen of the names that the source uses as types, in annotations and in constructor
  calls.
\<close>

definition undefined_type_names :: "string list" where
  "undefined_type_names =
    [''ConsciousnessState'', ''RealityGap'', ''CognitiveContradiction'', ''TemporalAnomaly'',
     ''QuantumObserver'', ''RealityMonitor'', ''ConsciousnessProbe'', ''ObservationMode'',
     ''TargetSystem'', ''CollectionParams'', ''ReportFormat'', ''Report'', ''ReportSection'']"

text \<open>
  Every name that occurs in an annotation or as a decorator, quoted or not: the names the
  headers of the module refer to, collected from the module as written.
\<close>

fun annotation_names :: "annotation \<Rightarrow> string list" where
  "annotation_names (Quoted s) = [s]"
| "annotation_names (Plain n) = [n]"
| "annotation_names (Dotted n a) = [n]"
| "annotation_names (Subscripted n a) = n # annotation_names a"

fun member_names :: "member \<Rightarrow> string list" where
  "member_names (Field n a) = annotation_names a"
| "member_names (Slots ns) = []"
| "member_names (Method n anns) = concat (map annotation_names anns)"

fun stmt_names :: "stmt \<Rightarrow> string list" where
  "stmt_names (ClassDef ds c body) = ds @ concat (map member_names body)"
| "stmt_names st = []"

definition header_names :: "string list" where
  "header_names = concat (map stmt_names module_source)"

text \<open>
  The global names that the method bodies evaluate, in the order of the source: lines 32,
  50, 69, 70, 71, 80, 117, 132 and 163.
\<close>

definition body_names :: "string list" where
  "body_names =
    [''QuantumReport'', ''ConsciousnessAnalysis'', ''QuantumObserver'', ''RealityMonitor'',
     ''ConsciousnessProbe'', ''ObservationMode'', ''QuantumEvidence'', ''Report'',
     ''ReportSection'']"

definition referenced_names :: "string list" where
  "referenced_names = header_names @ body_names"

text \<open>
  The methods that the bodies call, with the class on whose instance they are called:
  on \<^verbatim>\<open>self\<close> in the three classes, on the three attributes that
  \<^verbatim>\<open>QuantumEvidenceCollector.__init__\<close> sets, and on the \<^verbatim>\<open>ReportSection\<close> of line 163.
\<close>

definition referenced_methods :: "(string \<times> string) list" where
  "referenced_methods =
    [(''QuantumEvidence'', ''analyze_consciousness''),
     (''QuantumEvidence'', ''map_exploitation_potential''),
     (''QuantumEvidence'', ''calculate_certainty_metrics''),
     (''QuantumEvidence'', ''generate_behavioral_signatures''),
     (''QuantumEvidence'', ''extract_belief_system''),
     (''QuantumEvidence'', ''map_cognitive_biases''),
     (''QuantumEvidence'', ''identify_reasoning_patterns''),
     (''QuantumEvidence'', ''detect_consciousness_anomalies''),
     (''QuantumObserver'', ''observe''),
     (''ConsciousnessProbe'', ''probe''),
     (''RealityMonitor'', ''detect_gaps''),
     (''QuantumEvidenceCollector'', ''discover_cognitive_contradictions''),
     (''QuantumEvidenceCollector'', ''calculate_quantum_certainty''),
     (''QuantumEvidenceCollector'', ''analyze_entanglement_correlation''),
     (''QuantumEvidenceCollector'', ''detect_temporal_anomalies''),
     (''QuantumReportGenerator'', ''generate_consciousness_section''),
     (''QuantumReportGenerator'', ''generate_reality_gap_section''),
     (''QuantumReportGenerator'', ''generate_contradictions_section''),
     (''QuantumReportGenerator'', ''generate_quantum_metrics_section''),
     (''QuantumReportGenerator'', ''generate_exploitation_recommendations''),
     (''QuantumReportGenerator'', ''generate_behavioral_signatures_section''),
     (''ReportSection'', ''add_subsection''),
     (''QuantumReportGenerator'', ''map_belief_system''),
     (''QuantumReportGenerator'', ''analyze_cognitive_biases''),
     (''QuantumReportGenerator'', ''analyze_reasoning_patterns''),
     (''QuantumReportGenerator'', ''identify_consciousness_anomalies'')]"



section \<open>Basic facts\<close>

lemma source_names_eq:
  "source_names =
    [''hashlib'', ''json'', ''time'', ''dataclass'', ''Dict'', ''List'', ''Any'', ''Optional'',
     ''np'', ''signal'', ''QuantumEvidence'', ''QuantumEvidenceCollector'',
     ''QuantumReportGenerator'']"
  by (simp add: source_names_def module_source_def)

lemma dom_declared_namespace: "dom declared_namespace = set source_names"
  by (simp add: declared_namespace_def source_names_def dom_map_of_conv_image_fst)

lemma builtins_None: "n \<notin> set builtin_names \<Longrightarrow> builtins n = None"
  by (simp add: builtins_def map_of_eq_None_iff image_image)

lemma name_lookup_NameError:
  assumes "dom g \<subseteq> set source_names" and "n \<notin> set source_names" and "n \<notin> set builtin_names"
  shows "name_lookup g n = Inl (NameError n)"
proof -
  from assms(1,2) have "g n = None" by blast
  with assms(3) show ?thesis by (simp add: name_lookup_def builtins_None)
qed

lemma py_bind_lift_Inl: "py_bind (py_lift (Inl e)) f s = (Inl e, s)"
  by (simp add: py_bind_def py_lift_def)

lemma py_bind_lift_Inr: "py_bind (py_lift (Inr v)) f s = f v s"
  by (simp add: py_bind_def py_lift_def)


text \<open>The names that the method bodies and the headers evaluate and that nothing binds.\<close>

lemma unbound_names:
  assumes "dom g \<subseteq> set source_names"
  shows "name_lookup g ''QuantumReport'' = Inl (NameError ''QuantumReport'')"
    and "name_lookup g ''ConsciousnessAnalysis'' = Inl (NameError ''ConsciousnessAnalysis'')"
    and "name_lookup g ''QuantumObserver'' = Inl (NameError ''QuantumObserver'')"
    and "name_lookup g ''ObservationMode'' = Inl (NameError ''ObservationMode'')"
    and "name_lookup g ''Report'' = Inl (NameError ''Report'')"
    and "name_lookup g ''ReportSection'' = Inl (NameError ''ReportSection'')"
  by (rule name_lookup_NameError [OF assms]; simp add: source_names_eq builtin_names_def)+



lemma QuantumEvidenceCollector_init_unbound:
  "name_lookup g ''QuantumObserver'' = Inl e \<Longrightarrow>
   QuantumEvidenceCollector_init w g self s = (Inl e, s)"
  by (simp add: QuantumEvidenceCollector_init_def eval_name_def py_bind_lift_Inl)

lemma generate_report_unbound:
  "name_lookup g ''Report'' = Inl e \<Longrightarrow>
   generate_report w g self evidence report_format s = (Inl e, s)"
  by (simp add: generate_report_def eval_name_def py_bind_lift_Inl)

lemma generate_consciousness_section_unbound:
  "name_lookup g ''ReportSection'' = Inl e \<Longrightarrow>
   generate_consciousness_section w g self state s = (Inl e, s)"
  by (simp add: generate_consciousness_section_def eval_name_def py_bind_lift_Inl)

lemma collect_evidence_unbound:
  assumes "name_lookup g ''ObservationMode'' = Inl e"
  shows "collect_evidence w g self target collection_params s =
     (case load_attr self ''quantum_observer'' of
        Inl e1 \<Rightarrow> (Inl e1, s)
      | Inr obj \<Rightarrow>
         (case load_attr obj ''observe'' of
            Inl e2 \<Rightarrow> (Inl e2, s)
          | Inr f \<Rightarrow> (Inl e, s)))"
  using assms
  by (simp add: collect_evidence_def eval_name_def get_attr_def py_bind_lift_Inl
      py_bind_lift_Inr split: sum.splits)


section \<open>Every method fails\<close>



section \<open>Importing the module\<close>

lemma imported_libraries_eq:
  "imported_libraries module_source =
     [''hashlib'', ''json'', ''time'', ''dataclasses'', ''typing'', ''numpy'', ''scipy'']"
  by (simp add: module_source_def)

lemma builtins_float: "builtins ''float'' = Some (PyNamed ''float'')"
  by (simp add: builtins_def builtin_names_def)

lemma builtins_CollectionParams: "builtins ''CollectionParams'' = None"
  by (rule builtins_None) (simp add: builtin_names_def)

lemma exec_module_all_installed:
  assumes "\<forall>m\<in>set (imported_libraries module_source). installed m"
  shows "exec_module installed = Inl (NameError ''CollectionParams'')"
  using assms
  by (simp add: imported_libraries_eq exec_module_def module_source_def
      QuantumEvidence_body_def QuantumEvidenceCollector_body_def library_members_def
      name_lookup_def map_add_def builtins_float builtins_CollectionParams)

lemma exec_stmts_not_installed:
  "m \<in> set (imported_libraries sts) \<Longrightarrow> \<not> installed m \<Longrightarrow> \<exists>e. exec_stmts installed g sts = Inl e"
proof (induction sts arbitrary: g)
  case Nil
  then show ?case by simp
next
  case (Cons st sts)
  show ?case
  proof (cases "exec_stmt installed g st")
    case (Inl e)
    then show ?thesis by simp
  next
    case (Inr g')
    with Cons.prems have "m \<in> set (imported_libraries sts)"
      by (cases st) (auto split: if_splits)
    from Cons.IH [OF this Cons.prems(2)] Inr show ?thesis by simp
  qed
qed

lemma exec_module_fails: "\<exists>e. exec_module installed = Inl e"
proof (cases "\<forall>m\<in>set (imported_libraries module_source). installed m")
  case True
  then show ?thesis by (simp add: exec_module_all_installed)
next
  case False
  then obtain m where "m \<in> set (imported_libraries module_source)" "\<not> installed m" by blast
  then show ?thesis unfolding exec_module_def by (rule exec_stmts_not_installed)
qed

lemma generator_class_fails:
  assumes "dom g \<subseteq> insert ''ReportFormat'' (set source_names)" and "g ''QuantumEvidence'' = Some v"
  shows "exec_stmt installed g (ClassDef [] ''QuantumReportGenerator'' QuantumReportGenerator_body)
         = Inl (NameError (if g ''ReportFormat'' = None then ''ReportFormat'' else ''Report''))"
proof -
  have r: "g ''Report'' = None"
    using assms(1) by (auto simp: source_names_eq)
  have b: "builtins ''Report'' = None" "builtins ''ReportFormat'' = None"
    by (rule builtins_None, simp add: builtin_names_def)+
  show ?thesis
    using assms(2) r b
    by (auto simp: QuantumReportGenerator_body_def name_lookup_def)
qed

text \<open>
  Claim C2. Importing the module fails, whatever libraries are installed, so no namespace
  holding \<^verbatim>\<open>QuantumEvidenceCollector\<close> or \<^verbatim>\<open>QuantumReportGenerator\<close> ever exists. When all
  seven imported libraries are installed the failure is the \<^verbatim>\<open>NameError\<close> of
  \<^verbatim>\<open>CollectionParams\<close>, raised by the header of \<^verbatim>\<open>collect_evidence\<close> while the body of
  \<^verbatim>\<open>QuantumEvidenceCollector\<close> runs. The class statement of \<^verbatim>\<open>QuantumReportGenerator\<close>,
  run in a namespace where \<^verbatim>\<open>QuantumEvidence\<close> is bound, fails in the same way on
  \<^verbatim>\<open>ReportFormat\<close>, and on \<^verbatim>\<open>Report\<close> should \<^verbatim>\<open>ReportFormat\<close> be bound.
\<close>

theorem module_import_fails:
  "(\<exists>e. exec_module installed = Inl e) \<and>
   ((\<forall>m\<in>set (imported_libraries module_source). installed m) \<longrightarrow>
      exec_module installed = Inl (NameError ''CollectionParams'')) \<and>
   (dom g \<subseteq> insert ''ReportFormat'' (set source_names) \<and> g ''QuantumEvidence'' = Some v \<longrightarrow>
      exec_stmt installed g (ClassDef [] ''QuantumReportGenerator'' QuantumReportGenerator_body)
        = Inl (NameError (if g ''ReportFormat'' = None then ''ReportFormat'' else ''Report'')))"
  using exec_module_fails exec_module_all_installed generator_class_fails by blast

theorem module_import_fails_witness:
  "dom declared_namespace \<subseteq> insert ''ReportFormat'' (set source_names) \<and>
   declared_namespace ''QuantumEvidence'' = Some (PyClass ''QuantumEvidence'') \<and>
   exec_module (\<lambda>m. True) = Inl (NameError ''CollectionParams'') \<and>
   exec_stmt (\<lambda>m. True) declared_namespace
       (ClassDef [] ''QuantumReportGenerator'' QuantumReportGenerator_body)
     = Inl (NameError ''ReportFormat'')"
proof -
  have i: "\<forall>m\<in>set (imported_libraries module_source). (\<lambda>m. True) m"
    by simp
  have d: "dom declared_namespace \<subseteq> insert ''ReportFormat'' (set source_names)"
    by (auto simp: dom_declared_namespace)
  have q: "declared_namespace ''QuantumEvidence'' = Some (PyClass ''QuantumEvidence'')"
    by (simp add: declared_namespace_def module_source_def)
  have f: "declared_namespace ''ReportFormat'' = None"
    by (simp add: declared_namespace_def module_source_def)
  show ?thesis
    using module_import_fails [of "\<lambda>m. True" declared_namespace "PyClass ''QuantumEvidence''"]
      i d q f
    by simp
qed

section \<open>The undefined type names\<close>

lemma referenced_names_eq:
  "referenced_names =
  [''dataclass'', ''ConsciousnessState'', ''List'', ''RealityGap'', ''List'',
  ''CognitiveContradiction'', ''float'', ''np'', ''List'', ''TemporalAnomaly'',
  ''QuantumReport'', ''ConsciousnessAnalysis'', ''TargetSystem'',
  ''CollectionParams'', ''QuantumEvidence'', ''QuantumEvidence'',
  ''ReportFormat'', ''Report'', ''ConsciousnessState'', ''ReportSection'',
  ''QuantumReport'', ''ConsciousnessAnalysis'', ''QuantumObserver'',
  ''RealityMonitor'', ''ConsciousnessProbe'', ''ObservationMode'',
  ''QuantumEvidence'', ''Report'', ''ReportSection'']"
  by (simp add: referenced_names_def header_names_def body_names_def module_source_def
      QuantumEvidence_body_def QuantumEvidenceCollector_body_def QuantumReportGenerator_body_def)

lemma undefined_type_names_referenced:
  "list_all (\<lambda>n. n \<in> set referenced_names) undefined_type_names"
  by (simp add: undefined_type_names_def referenced_names_eq)

lemma undefined_type_names_fresh:
  "n \<in> set undefined_type_names \<Longrightarrow> n \<notin> set source_names \<and> n \<notin> set builtin_names"
  by (auto simp: undefined_type_names_def source_names_eq builtin_names_def)

lemma class_decl_None: "n \<notin> set source_names \<Longrightarrow> class_decl module_source n = None"
  by (auto simp: source_names_eq module_source_def)

text \<open>
  Claim C3. Each of the thirteen type names is used by the source, and none is bound or
  declared as a class by it, so in a namespace that binds only what the source binds,
  evaluating any of them is \<^verbatim>\<open>NameError\<close>: \<^verbatim>\<open>QuantumEvidenceCollector.__init__\<close> fails on
  \<^verbatim>\<open>QuantumObserver\<close>, and \<^verbatim>\<open>collect_evidence\<close>, once \<^verbatim>\<open>self.quantum_observer.observe\<close>
  has been read, fails on \<^verbatim>\<open>ObservationMode\<close>.
\<close>

theorem undefined_type_names_unbound:
  "length undefined_type_names = 13 \<and> distinct undefined_type_names \<and>
   (\<forall>n\<in>set undefined_type_names.
      n \<in> set referenced_names \<and> n \<notin> set source_names \<and> class_decl module_source n = None) \<and>
   (dom g \<subseteq> set source_names \<longrightarrow>
      (\<forall>n\<in>set undefined_type_names. name_lookup g n = Inl (NameError n)) \<and>
      fst (QuantumEvidenceCollector_init w g self s) = Inl (NameError ''QuantumObserver'') \<and>
      (load_attr self ''quantum_observer'' = Inr obj \<and> load_attr obj ''observe'' = Inr f \<longrightarrow>
         fst (collect_evidence w g self target collection_params s)
           = Inl (NameError ''ObservationMode'')))"
proof -
  have a: "length undefined_type_names = 13" "distinct undefined_type_names"
    by (simp_all add: undefined_type_names_def)
  have b: "\<forall>n\<in>set undefined_type_names.
      n \<in> set referenced_names \<and> n \<notin> set source_names \<and> class_decl module_source n = None"
    using undefined_type_names_referenced undefined_type_names_fresh class_decl_None
    unfolding list_all_iff by blast
  have c: "\<forall>n\<in>set undefined_type_names. name_lookup g n = Inl (NameError n)"
    if "dom g \<subseteq> set source_names"
    using that undefined_type_names_fresh name_lookup_NameError by blast
  have d: "fst (QuantumEvidenceCollector_init w g self s) = Inl (NameError ''QuantumObserver'')"
    if "dom g \<subseteq> set source_names"
    by (simp add: QuantumEvidenceCollector_init_unbound [OF unbound_names(3) [OF that]])
  have e: "fst (collect_evidence w g self target collection_params s)
           = Inl (NameError ''ObservationMode'')"
    if "dom g \<subseteq> set source_names" "load_attr self ''quantum_observer'' = Inr obj"
       "load_attr obj ''observe'' = Inr f"
    using that(2,3) by (simp add: collect_evidence_unbound [OF unbound_names(4) [OF that(1)]])
  from a b c d e show ?thesis by blast
qed

theorem undefined_type_names_unbound_witness:
  "dom declared_namespace \<subseteq> set source_names \<and>
   load_attr (PyObj ''QuantumEvidenceCollector''
                [(''quantum_observer'', PyObj ''Observer'' [(''observe'', PyNamed ''observe'')])])
     ''quantum_observer'' = Inr (PyObj ''Observer'' [(''observe'', PyNamed ''observe'')]) \<and>
   load_attr (PyObj ''Observer'' [(''observe'', PyNamed ''observe'')]) ''observe''
     = Inr (PyNamed ''observe'') \<and>
   ''TargetSystem'' \<in> set undefined_type_names \<and>
   name_lookup declared_namespace ''TargetSystem'' = Inl (NameError ''TargetSystem'') \<and>
   fst (QuantumEvidenceCollector_init (\<lambda>f args kws s. (Inr PyNone, s)) declared_namespace
          (PyObj ''QuantumEvidenceCollector''
             [(''quantum_observer'', PyObj ''Observer'' [(''observe'', PyNamed ''observe'')])])
          ()) = Inl (NameError ''QuantumObserver'') \<and>
   fst (collect_evidence (\<lambda>f args kws s. (Inr PyNone, s)) declared_namespace
          (PyObj ''QuantumEvidenceCollector''
             [(''quantum_observer'', PyObj ''Observer'' [(''observe'', PyNamed ''observe'')])])
          PyNone PyNone ()) = Inl (NameError ''ObservationMode'')"
proof -
  have m: "''TargetSystem'' \<in> set undefined_type_names"
    by (simp add: undefined_type_names_def)
  have l: "load_attr (PyObj ''QuantumEvidenceCollector''
                [(''quantum_observer'', PyObj ''Observer'' [(''observe'', PyNamed ''observe'')])])
     ''quantum_observer'' = Inr (PyObj ''Observer'' [(''observe'', PyNamed ''observe'')])"
    "load_attr (PyObj ''Observer'' [(''observe'', PyNamed ''observe'')]) ''observe''
     = Inr (PyNamed ''observe'')"
    by simp_all
  show ?thesis
    using undefined_type_names_unbound [of declared_namespace "\<lambda>f args kws s. (Inr PyNone, s)"
        "PyObj ''QuantumEvidenceCollector''
             [(''quantum_observer'', PyObj ''Observer'' [(''observe'', PyNamed ''observe'')])]"
        "()" "PyObj ''Observer'' [(''observe'', PyNamed ''observe'')]" "PyNamed ''observe''"
        PyNone PyNone] m l
    by (simp only: dom_declared_namespace subset_refl)
qed

section \<open>The container \<^verbatim>\<open>QuantumEvidence\<close>\<close>

lemma QuantumEvidence_fields_eq:
  "dataclass_fields QuantumEvidence_body =
     [''consciousness_state'', ''reality_gaps'', ''cognitive_contradictions'',
      ''quantum_certainty'', ''entanglement_correlation'', ''temporal_anomalies'']"
  by (simp add: dataclass_fields_def QuantumEvidence_body_def)


lemma QuantumEvidence_class_slots:
  "class_slots ''QuantumEvidence'' = Some (dataclass_fields QuantumEvidence_body)"
  by (simp add: class_slots_def module_source_def QuantumEvidence_fields_eq)
     (simp add: QuantumEvidence_body_def)

lemma update_fresh: "k \<notin> fst ` set al \<Longrightarrow> AList.update k v al = al @ [(k, v)]"
  by (induction al) auto

lemma assign_fields_slots:
  assumes "class_slots c = Some slots" and "''__class__'' \<notin> set slots"
  shows "set (map fst bs) \<subseteq> set slots \<Longrightarrow> distinct (map fst bs) \<Longrightarrow>
         fst ` set attrs \<inter> set (map fst bs) = {} \<Longrightarrow>
         assign_fields (PyObj c attrs) bs = Inr (PyObj c (attrs @ bs))"
proof (induction bs arbitrary: attrs)
  case Nil
  then show ?case by simp
next
  case (Cons b bs)
  obtain n v where b: "b = (n, v)" by (cases b)
  from Cons.prems b have fresh: "n \<notin> fst ` set attrs" and slot: "n \<in> set slots"
    by auto
  from slot assms(2) have plain: "n \<noteq> ''__class__''" by blast
  have "assign_fields (PyObj c (attrs @ [(n, v)])) bs = Inr (PyObj c ((attrs @ [(n, v)]) @ bs))"
    using Cons.prems b by (intro Cons.IH) auto
  then show ?case
    using assms(1) fresh slot plain b by (simp add: update_fresh)
qed

lemma bind_arguments_Inr:
  assumes "bind_arguments params args kws = Inr bs"
  shows "length args \<le> length params"
    and "set (map fst kws) = set (drop (length args) params)"
    and "bs = zip (take (length args) params) args @
              map (\<lambda>p. (p, case map_of kws p of Some v \<Rightarrow> v | None \<Rightarrow> PyNone))
                (drop (length args) params)"
proof -
  let ?given = "take (length args) params" and ?rest = "drop (length args) params"
  from assms have len: "\<not> length params < length args"
    and f1: "filter (\<lambda>k. k \<notin> set params) (map fst kws) = []"
    and f2: "filter (\<lambda>k. k \<in> set ?given) (map fst kws) = []"
    and f3: "filter (\<lambda>p. map_of kws p = None) ?rest = []"
    and res: "bs = zip ?given args @
              map (\<lambda>p. (p, case map_of kws p of Some v \<Rightarrow> v | None \<Rightarrow> PyNone)) ?rest"
    by (auto simp: bind_arguments_def Let_def split: if_splits list.splits)
  from len show "length args \<le> length params" by simp
  from res show "bs = zip ?given args @
              map (\<lambda>p. (p, case map_of kws p of Some v \<Rightarrow> v | None \<Rightarrow> PyNone)) ?rest" .
  have "set params = set ?given \<union> set ?rest"
    by (metis append_take_drop_id set_append)
  with f1 f2 have "set (map fst kws) \<subseteq> set ?rest"
    by (auto simp: filter_empty_conv)
  moreover from f3 have "set ?rest \<subseteq> set (map fst kws)"
    by (auto simp: filter_empty_conv map_of_eq_None_iff)
  ultimately show "set (map fst kws) = set ?rest" by blast
qed


lemma bind_arguments_names:
  assumes "bind_arguments params args kws = Inr bs"
  shows "map fst bs = params"
proof -
  note r = bind_arguments_Inr [OF assms]
  have "map fst (zip (take (length args) params) args) = take (length args) params"
    using r(1) by (simp add: map_fst_zip_take)
  then show ?thesis
    by (simp add: r(3) comp_def)
qed

lemma bind_arguments_arity:
  assumes "length args \<noteq> length params"
  shows "\<exists>m. bind_arguments params args [] = Inl (TypeError m)"
proof (cases "length params < length args")
  case True
  then show ?thesis by (simp add: bind_arguments_def)
next
  case False
  with assms have "length args < length params" by simp
  then obtain p ps where "drop (length args) params = p # ps"
    by (cases "drop (length args) params") auto
  with False show ?thesis by (simp add: bind_arguments_def)
qed

lemma QuantumEvidence_new_bound:
  assumes "bind_arguments (dataclass_fields QuantumEvidence_body) args kws = Inr bs"
  shows "QuantumEvidence_new args kws = Inr (PyObj ''QuantumEvidence'' bs)"
proof -
  have n: "map fst bs = dataclass_fields QuantumEvidence_body"
    by (rule bind_arguments_names [OF assms])
  have "assign_fields (PyObj ''QuantumEvidence'' []) bs = Inr (PyObj ''QuantumEvidence'' ([] @ bs))"
    by (rule assign_fields_slots [OF QuantumEvidence_class_slots])
       (simp_all add: n, simp_all add: QuantumEvidence_fields_eq)
  with assms show ?thesis by (simp add: QuantumEvidence_new_def)
qed

lemma QuantumEvidence_new_Inr:
  assumes "QuantumEvidence_new args kws = Inr obj"
  obtains bs where "bind_arguments (dataclass_fields QuantumEvidence_body) args kws = Inr bs"
    and "obj = PyObj ''QuantumEvidence'' bs"
proof (cases "bind_arguments (dataclass_fields QuantumEvidence_body) args kws")
  case (Inl e)
  with assms show ?thesis by (simp add: QuantumEvidence_new_def)
next
  case (Inr bs)
  with assms QuantumEvidence_new_bound [OF Inr] that show ?thesis by simp
qed

lemma QuantumEvidence_new_positional:
  "QuantumEvidence_new [v1, v2, v3, v4, v5, v6] [] =
     Inr (PyObj ''QuantumEvidence''
       [(''consciousness_state'', v1), (''reality_gaps'', v2),
        (''cognitive_contradictions'', v3), (''quantum_certainty'', v4),
        (''entanglement_correlation'', v5), (''temporal_anomalies'', v6)])"
  by (rule QuantumEvidence_new_bound [THEN trans])
     (simp_all add: QuantumEvidence_fields_eq bind_arguments_def)

lemma QuantumEvidence_new_keywords:
  "QuantumEvidence_new []
       [(''consciousness_state'', v1), (''reality_gaps'', v2),
        (''cognitive_contradictions'', v3), (''quantum_certainty'', v4),
        (''entanglement_correlation'', v5), (''temporal_anomalies'', v6)] =
     Inr (PyObj ''QuantumEvidence''
       [(''consciousness_state'', v1), (''reality_gaps'', v2),
        (''cognitive_contradictions'', v3), (''quantum_certainty'', v4),
        (''entanglement_correlation'', v5), (''temporal_anomalies'', v6)])"
  by (rule QuantumEvidence_new_bound [THEN trans])
     (simp_all add: QuantumEvidence_fields_eq bind_arguments_def)

text \<open>
  Claim C4. \<^verbatim>\<open>QuantumEvidence\<close> has exactly six fields, in the order and with the
  annotations written in lines 13 to 18 (\<^verbatim>\<open>quantum_certainty: float\<close>,
  \<^verbatim>\<open>entanglement_correlation: np.ndarray\<close>, three lists and a consciousness state). The
  generated constructor takes the six values, positionally or by keyword, and builds the
  instance that stores them under the six names; a positional call with any other number
  of arguments is \<^verbatim>\<open>TypeError\<close>; and whenever a call succeeds, the keywords given are
  exactly the fields not given positionally, so six values were passed and nothing else.
\<close>

theorem QuantumEvidence_six_fields:
  "annotated_names QuantumEvidence_body =
     [(''consciousness_state'', Quoted ''ConsciousnessState''),
      (''reality_gaps'', Subscripted ''List'' (Quoted ''RealityGap'')),
      (''cognitive_contradictions'', Subscripted ''List'' (Quoted ''CognitiveContradiction'')),
      (''quantum_certainty'', Plain ''float''),
      (''entanglement_correlation'', Dotted ''np'' ''ndarray''),
      (''temporal_anomalies'', Subscripted ''List'' (Quoted ''TemporalAnomaly''))] \<and>
   dataclass_fields QuantumEvidence_body =
     [''consciousness_state'', ''reality_gaps'', ''cognitive_contradictions'',
      ''quantum_certainty'', ''entanglement_correlation'', ''temporal_anomalies''] \<and>
   QuantumEvidence_new [v1, v2, v3, v4, v5, v6] [] =
     Inr (PyObj ''QuantumEvidence''
       [(''consciousness_state'', v1), (''reality_gaps'', v2),
        (''cognitive_contradictions'', v3), (''quantum_certainty'', v4),
        (''entanglement_correlation'', v5), (''temporal_anomalies'', v6)]) \<and>
   QuantumEvidence_new []
       [(''consciousness_state'', v1), (''reality_gaps'', v2),
        (''cognitive_contradictions'', v3), (''quantum_certainty'', v4),
        (''entanglement_correlation'', v5), (''temporal_anomalies'', v6)] =
     Inr (PyObj ''QuantumEvidence''
       [(''consciousness_state'', v1), (''reality_gaps'', v2),
        (''cognitive_contradictions'', v3), (''quantum_certainty'', v4),
        (''entanglement_correlation'', v5), (''temporal_anomalies'', v6)]) \<and>
   (length args \<noteq> 6 \<longrightarrow> (\<exists>m. QuantumEvidence_new args [] = Inl (TypeError m))) \<and>
   (QuantumEvidence_new args kws = Inr obj \<longrightarrow>
      length args \<le> 6 \<and>
      set (map fst kws) = set (drop (length args) (dataclass_fields QuantumEvidence_body)))"
proof -
  have a: "annotated_names QuantumEvidence_body =
     [(''consciousness_state'', Quoted ''ConsciousnessState''),
      (''reality_gaps'', Subscripted ''List'' (Quoted ''RealityGap'')),
      (''cognitive_contradictions'', Subscripted ''List'' (Quoted ''CognitiveContradiction'')),
      (''quantum_certainty'', Plain ''float''),
      (''entanglement_correlation'', Dotted ''np'' ''ndarray''),
      (''temporal_anomalies'', Subscripted ''List'' (Quoted ''TemporalAnomaly''))]"
    by (simp add: QuantumEvidence_body_def)
  have len: "length (dataclass_fields QuantumEvidence_body) = 6"
    by (simp add: QuantumEvidence_fields_eq)
  have few: "\<exists>m. QuantumEvidence_new args [] = Inl (TypeError m)" if "length args \<noteq> 6"
  proof -
    from that len have "length args \<noteq> length (dataclass_fields QuantumEvidence_body)" by simp
    from bind_arguments_arity [OF this] show ?thesis
      by (auto simp: QuantumEvidence_new_def)
  qed
  have ok: "length args \<le> 6 \<and>
      set (map fst kws) = set (drop (length args) (dataclass_fields QuantumEvidence_body))"
    if "QuantumEvidence_new args kws = Inr obj"
  proof -
    from that obtain bs
      where "bind_arguments (dataclass_fields QuantumEvidence_body) args kws = Inr bs"
      by (rule QuantumEvidence_new_Inr)
    from bind_arguments_Inr(1,2) [OF this] len show ?thesis by simp
  qed
  from a QuantumEvidence_fields_eq QuantumEvidence_new_positional QuantumEvidence_new_keywords
    few ok
  show ?thesis by blast
qed

theorem QuantumEvidence_six_fields_witness:
  "length [PyNone, PyNone] \<noteq> (6::nat) \<and>
   (\<exists>m. QuantumEvidence_new [PyNone, PyNone] [] = Inl (TypeError m)) \<and>
   QuantumEvidence_new [PyStr ''awake'', PyNone, PyNone]
       [(''temporal_anomalies'', PyNone), (''quantum_certainty'', PyFloat (1/2)),
        (''entanglement_correlation'', PyNone)]
     = Inr (PyObj ''QuantumEvidence''
       [(''consciousness_state'', PyStr ''awake''), (''reality_gaps'', PyNone),
        (''cognitive_contradictions'', PyNone), (''quantum_certainty'', PyFloat (1/2)),
        (''entanglement_correlation'', PyNone), (''temporal_anomalies'', PyNone)]) \<and>
   length [PyStr ''awake'', PyNone, PyNone] \<le> (6::nat) \<and>
   set (map fst [(''temporal_anomalies'', PyNone), (''quantum_certainty'', PyFloat (1/2)),
        (''entanglement_correlation'', PyNone)])
     = set (drop (length [PyStr ''awake'', PyNone, PyNone]) (dataclass_fields QuantumEvidence_body))"
proof -
  have n: "QuantumEvidence_new [PyStr ''awake'', PyNone, PyNone]
       [(''temporal_anomalies'', PyNone), (''quantum_certainty'', PyFloat (1/2)),
        (''entanglement_correlation'', PyNone)]
     = Inr (PyObj ''QuantumEvidence''
       [(''consciousness_state'', PyStr ''awake''), (''reality_gaps'', PyNone),
        (''cognitive_contradictions'', PyNone), (''quantum_certainty'', PyFloat (1/2)),
        (''entanglement_correlation'', PyNone), (''temporal_anomalies'', PyNone)])"
    by (rule QuantumEvidence_new_bound [THEN trans])
       (simp_all add: QuantumEvidence_fields_eq bind_arguments_def)
  have l: "length [PyNone, PyNone] \<noteq> (6::nat)" by simp
  show ?thesis
    using QuantumEvidence_six_fields [where args = "[PyNone, PyNone]"]
      QuantumEvidence_six_fields [where args = "[PyStr ''awake'', PyNone, PyNone]"
        and kws = "[(''temporal_anomalies'', PyNone), (''quantum_certainty'', PyFloat (1/2)),
          (''entanglement_correlation'', PyNone)]"
        and obj = "PyObj ''QuantumEvidence''
       [(''consciousness_state'', PyStr ''awake''), (''reality_gaps'', PyNone),
        (''cognitive_contradictions'', PyNone), (''quantum_certainty'', PyFloat (1/2)),
        (''entanglement_correlation'', PyNone), (''temporal_anomalies'', PyNone)]"] n l
    by (simp only: simp_thms)
qed

section \<open>\<^verbatim>\<open>Report\<close> and \<^verbatim>\<open>ReportSection\<close>\<close>

lemma declared_NameError:
  "n \<notin> set source_names \<Longrightarrow> n \<notin> set builtin_names \<Longrightarrow>
   name_lookup declared_namespace n = Inl (NameError n)"
  by (rule name_lookup_NameError) (simp_all add: dom_declared_namespace)

lemma undefined_names_lookup:
  "list_all (\<lambda>n. name_lookup declared_namespace n = Inl (NameError n))
     [''ConsciousnessState'', ''RealityGap'', ''CognitiveContradiction'',
      ''TemporalAnomaly'', ''QuantumReport'', ''ConsciousnessAnalysis'', ''TargetSystem'',
      ''CollectionParams'', ''ReportFormat'', ''Report'', ''ReportSection'', ''QuantumObserver'',
      ''RealityMonitor'', ''ConsciousnessProbe'', ''ObservationMode'']"
  by (simp add: declared_NameError source_names_eq builtin_names_def)

text \<open>
  Claim C5, as amended. \<^verbatim>\<open>Report\<close> and \<^verbatim>\<open>ReportSection\<close> are not declared by the
  source: no class statement defines them and nothing binds the names.
  \<^verbatim>\<open>QuantumReportGenerator\<close> only uses the names, and in a namespace that binds only what
  the source binds, \<^verbatim>\<open>Report()\<close> and \<^verbatim>\<open>ReportSection(title=...)\<close> raise \<^verbatim>\<open>NameError\<close>:
  \<^verbatim>\<open>generate_report\<close> and \<^verbatim>\<open>generate_consciousness_section\<close> end there, having
  constructed no object and changed nothing.
\<close>

theorem Report_names_only_used:
  "class_decl module_source ''Report'' = None \<and>
   class_decl module_source ''ReportSection'' = None \<and>
   (dom g \<subseteq> set source_names \<longrightarrow>
      name_lookup g ''Report'' = Inl (NameError ''Report'') \<and>
      name_lookup g ''ReportSection'' = Inl (NameError ''ReportSection'') \<and>
      generate_report w g self evidence report_format s = (Inl (NameError ''Report''), s) \<and>
      generate_consciousness_section w g self state s = (Inl (NameError ''ReportSection''), s))"
proof -
  have "class_decl module_source ''Report'' = None"
    "class_decl module_source ''ReportSection'' = None"
    by (rule class_decl_None, simp add: source_names_eq)+
  moreover have "name_lookup g ''Report'' = Inl (NameError ''Report'') \<and>
      name_lookup g ''ReportSection'' = Inl (NameError ''ReportSection'') \<and>
      generate_report w g self evidence report_format s = (Inl (NameError ''Report''), s) \<and>
      generate_consciousness_section w g self state s = (Inl (NameError ''ReportSection''), s)"
    if "dom g \<subseteq> set source_names"
    using unbound_names(5,6) [OF that]
    by (simp add: generate_report_unbound generate_consciousness_section_unbound)
  ultimately show ?thesis by blast
qed

theorem Report_names_only_used_witness:
  "dom declared_namespace \<subseteq> set source_names \<and>
   generate_report (\<lambda>f args kws s. (Inr (PyObj ''Report'' [(''sections'', PyDict [])]), Suc s))
       declared_namespace (PyObj ''QuantumReportGenerator'' [])
       (PyObj ''QuantumEvidence'' []) (PyStr ''text'') 0
     = (Inl (NameError ''Report''), 0) \<and>
   generate_consciousness_section
       (\<lambda>f args kws s. (Inr (PyObj ''Report'' [(''sections'', PyDict [])]), Suc s))
       declared_namespace (PyObj ''QuantumReportGenerator'' []) PyNone 0
     = (Inl (NameError ''ReportSection''), 0)"
  using Report_names_only_used [of declared_namespace
      "\<lambda>f args kws s. (Inr (PyObj ''Report'' [(''sections'', PyDict [])]), Suc s)"
      "PyObj ''QuantumReportGenerator'' []" "PyObj ''QuantumEvidence'' []" "PyStr ''text''" 0 PyNone]
  by (simp only: dom_declared_namespace subset_refl simp_thms)

text \<open>
  The claim as stated fails on the source as it is: neither name is declared, and in the
  namespace of all the source's bindings both raise \<^verbatim>\<open>NameError\<close>.
\<close>

theorem Report_declared_counterexample:
  "class_decl module_source ''Report'' = None \<and>
   class_decl module_source ''ReportSection'' = None \<and>
   name_lookup declared_namespace ''Report'' = Inl (NameError ''Report'') \<and>
   name_lookup declared_namespace ''ReportSection'' = Inl (NameError ''ReportSection'')"
proof -
  have "class_decl module_source ''Report'' = None"
    "class_decl module_source ''ReportSection'' = None"
    by (rule class_decl_None, simp add: source_names_eq)+
  then show ?thesis
    using undefined_names_lookup by simp
qed

section \<open>No validation, no exception of the module's own\<close>
























section \<open>What is referenced and what is defined\<close>

lemma class_methods_eq:
  "class_methods ''QuantumEvidence''
     = [''to_report'', ''analyze_consciousness'', ''__init__'', ''__repr__'', ''__eq__'']"
  "class_methods ''QuantumEvidenceCollector'' = [''__init__'', ''collect_evidence'']"
  "class_methods ''QuantumReportGenerator''
     = [''generate_report'', ''generate_consciousness_section'']"
  "class_methods ''QuantumObserver'' = []"
  "class_methods ''ConsciousnessProbe'' = []"
  "class_methods ''RealityMonitor'' = []"
  "class_methods ''ReportSection'' = []"
  by (simp_all add: class_methods_def module_source_def QuantumEvidence_body_def
      QuantumEvidenceCollector_body_def QuantumReportGenerator_body_def)

lemma defined_names_lookup:
  "name_lookup declared_namespace ''dataclass'' = Inr (PyNamed ''dataclasses.dataclass'')"
  "name_lookup declared_namespace ''List'' = Inr (PyNamed ''typing.List'')"
  "name_lookup declared_namespace ''float'' = Inr (PyNamed ''float'')"
  "name_lookup declared_namespace ''np'' = Inr (PyModule ''numpy'')"
  "name_lookup declared_namespace ''QuantumEvidence'' = Inr (PyClass ''QuantumEvidence'')"
  by (simp_all add: name_lookup_def declared_namespace_def module_source_def builtins_float)

text \<open>
  Claim C7, as amended. Every type and method that the source refers to is undefined,
  except the class \<^verbatim>\<open>QuantumEvidence\<close>, the imported \<^verbatim>\<open>dataclass\<close>, \<^verbatim>\<open>List\<close> and \<^verbatim>\<open>np\<close>,
  the built-in \<^verbatim>\<open>float\<close>, and the methods \<^verbatim>\<open>analyze_consciousness\<close> of
  \<^verbatim>\<open>QuantumEvidence\<close> and \<^verbatim>\<open>generate_consciousness_section\<close> of
  \<^verbatim>\<open>QuantumReportGenerator\<close>; and the constructor of \<^verbatim>\<open>QuantumEvidence\<close> has an input/output
  contract that can be tested: six values in, the instance that stores them out.
\<close>

theorem referenced_names_mostly_undefined:
  "(\<forall>n\<in>set referenced_names.
      (\<exists>v. name_lookup declared_namespace n = Inr v) \<longleftrightarrow>
      n \<in> set [''dataclass'', ''List'', ''float'', ''np'', ''QuantumEvidence'']) \<and>
   (\<forall>(c, m)\<in>set referenced_methods.
      m \<in> set (class_methods c) \<longleftrightarrow>
      (c, m) \<in> set [(''QuantumEvidence'', ''analyze_consciousness''),
                     (''QuantumReportGenerator'', ''generate_consciousness_section'')]) \<and>
   QuantumEvidence_new [v1, v2, v3, v4, v5, v6] [] =
     Inr (PyObj ''QuantumEvidence''
       [(''consciousness_state'', v1), (''reality_gaps'', v2),
        (''cognitive_contradictions'', v3), (''quantum_certainty'', v4),
        (''entanglement_correlation'', v5), (''temporal_anomalies'', v6)])"
proof -
  have a: "\<forall>n\<in>set referenced_names.
      (\<exists>v. name_lookup declared_namespace n = Inr v) \<longleftrightarrow>
      n \<in> set [''dataclass'', ''List'', ''float'', ''np'', ''QuantumEvidence'']"
    unfolding list_all_iff [symmetric] referenced_names_eq
    using undefined_names_lookup defined_names_lookup by simp
  have b: "\<forall>(c, m)\<in>set referenced_methods.
      m \<in> set (class_methods c) \<longleftrightarrow>
      (c, m) \<in> set [(''QuantumEvidence'', ''analyze_consciousness''),
                 (''QuantumReportGenerator'', ''generate_consciousness_section'')]"
    unfolding list_all_iff [symmetric] referenced_methods_def
    by (simp add: class_methods_eq)
  from a b QuantumEvidence_new_positional show ?thesis by blast
qed

theorem referenced_names_mostly_undefined_witness:
  "''QuantumReport'' \<in> set referenced_names \<and>
   \<not> (\<exists>v. name_lookup declared_namespace ''QuantumReport'' = Inr v) \<and>
   (''QuantumEvidenceCollector'', ''detect_temporal_anomalies'') \<in> set referenced_methods \<and>
   ''detect_temporal_anomalies'' \<notin> set (class_methods ''QuantumEvidenceCollector'') \<and>
   QuantumEvidence_new [PyNone, PyNone, PyNone, PyFloat 2, PyNone, PyNone] [] =
     Inr (PyObj ''QuantumEvidence''
       [(''consciousness_state'', PyNone), (''reality_gaps'', PyNone),
        (''cognitive_contradictions'', PyNone), (''quantum_certainty'', PyFloat 2),
        (''entanglement_correlation'', PyNone), (''temporal_anomalies'', PyNone)])"
proof -
  have r: "''QuantumReport'' \<in> set referenced_names"
    by (simp add: referenced_names_eq)
  have m: "(''QuantumEvidenceCollector'', ''detect_temporal_anomalies'') \<in> set referenced_methods"
    by (simp add: referenced_methods_def)
  note t = referenced_names_mostly_undefined [of PyNone PyNone PyNone "PyFloat 2" PyNone PyNone]
  from t r have 1: "\<not> (\<exists>v. name_lookup declared_namespace ''QuantumReport'' = Inr v)"
    by fastforce
  from t m have 2: "''detect_temporal_anomalies'' \<notin> set (class_methods ''QuantumEvidenceCollector'')"
    by fastforce
  from t r m 1 2 show ?thesis by (simp only: simp_thms)
qed

text \<open>
  The claim as stated fails: \<^verbatim>\<open>QuantumEvidence\<close>, which line 117 calls, is defined, and so
  is \<^verbatim>\<open>analyze_consciousness\<close>, which line 35 calls; and the constructor returns a value.
\<close>

theorem referenced_and_defined_counterexample:
  "''QuantumEvidence'' \<in> set referenced_names \<and>
   name_lookup declared_namespace ''QuantumEvidence'' = Inr (PyClass ''QuantumEvidence'') \<and>
   (''QuantumEvidence'', ''analyze_consciousness'') \<in> set referenced_methods \<and>
   load_attr (PyObj ''QuantumEvidence'' []) ''analyze_consciousness''
     = Inr (PyMethod ''QuantumEvidence'' ''analyze_consciousness'' (PyObj ''QuantumEvidence'' [])) \<and>
   QuantumEvidence_new [PyNone, PyNone, PyNone, PyFloat 2, PyNone, PyNone] [] =
     Inr (PyObj ''QuantumEvidence''
       [(''consciousness_state'', PyNone), (''reality_gaps'', PyNone),
        (''cognitive_contradictions'', PyNone), (''quantum_certainty'', PyFloat 2),
        (''entanglement_correlation'', PyNone), (''temporal_anomalies'', PyNone)])"
  by (simp add: referenced_names_eq defined_names_lookup referenced_methods_def class_methods_eq
      QuantumEvidence_new_positional)

section \<open>Determinism\<close>




section \<open>No effect outside the objects\<close>




section \<open>The slots of \<^verbatim>\<open>QuantumEvidence\<close>\<close>






end
